theory Spec2Isabelle
  imports Main
begin

section \<open>Values, exceptions and the dynamic operations of the source\<close>

text \<open>
  The functions of \<^verbatim>\<open>model_serving_utils.py\<close> inspect payloads whose shape is only known
  at run time. A payload is a value of \<open>pyval\<close>: the values a JSON decoder produces, and
  byte strings (which the streaming transport may deliver and which \<^verbatim>\<open>json.dumps\<close>
  refuses). A Python \<^verbatim>\<open>str\<close> is modelled by its UTF-8 encoding, a \<open>string\<close> of bytes
  (a lone surrogate, which Python allows, by the three bytes the same scheme gives it), so
  an ASCII text is its own model. Python's \<^verbatim>\<open>len\<close> counts code points, which is
  \<open>text_len\<close> below. A dict is an association list with string keys, looked up with
  \<open>map_of\<close>.

  A float is kept as the decimal it is written as: \<open>Dec m e\<close> is the double nearest to
  \<open>m * 10 ^ e\<close>; there are the value that is not a number and the two infinities.
\<close>

datatype pyfloat = Dec int int | NaN | Inf bool

datatype pyval =
    PNone
  | PBool bool
  | PInt int
  | PFloat pyfloat
  | PStr string
  | PBytes string
  | PList "pyval list"
  | PDict "(string \<times> pyval) list"

text \<open>
  Exceptions: the built-in ones the dynamic operations raise, and \<open>Exception msg\<close> for
  any other exception, where \<open>msg\<close> is its \<^verbatim>\<open>str()\<close>. All of them are subclasses of
  Python's \<^verbatim>\<open>Exception\<close>, so an \<^verbatim>\<open>except Exception\<close> clause catches each one.
\<close>

datatype exn = TypeError | KeyError | IndexError | AttributeError | UnicodeDecodeError
  | JSONDecodeError | RecursionError | ValueError
  | Exception string

datatype level = INFO | WARNING | ERROR

type_synonym log = "(level \<times> string) list"

text \<open>\<^verbatim>\<open>isinstance(v, dict)\<close>, \<^verbatim>\<open>isinstance(v, list)\<close>, \<^verbatim>\<open>isinstance(v, str)\<close>.\<close>

fun is_dict :: "pyval \<Rightarrow> bool" where
  "is_dict (PDict d) = True"
| "is_dict v = False"



text \<open>
  Truth value of a Python value, as \<^verbatim>\<open>if v\<close>, \<^verbatim>\<open>and\<close> and \<^verbatim>\<open>or\<close> test it. A float
  is false when it is zero. The least positive double is \<open>2 ^ -1074\<close>, and conversion
  rounds to nearest, ties to even, so the double nearest to \<open>m * 10 ^ e\<close> is zero exactly
  when \<open>\<bar>m\<bar> * 10 ^ e \<le> 2 ^ -1075\<close>: a literal such as \<^verbatim>\<open>1e-400\<close> is the float zero.
\<close>

fun float_nonzero :: "pyfloat \<Rightarrow> bool" where
  "float_nonzero (Dec m e) =
     (if 0 \<le> e then m \<noteq> 0 else 10 ^ nat (- e) < \<bar>m\<bar> * 2 ^ 1075)"
| "float_nonzero NaN = True"
| "float_nonzero (Inf positive) = True"

fun truthy :: "pyval \<Rightarrow> bool" where
  "truthy PNone = False"
| "truthy (PBool b) = b"
| "truthy (PInt i) = (i \<noteq> 0)"
| "truthy (PFloat x) = float_nonzero x"
| "truthy (PStr s) = (s \<noteq> [])"
| "truthy (PBytes s) = (s \<noteq> [])"
| "truthy (PList xs) = (xs \<noteq> [])"
| "truthy (PDict d) = (d \<noteq> [])"

text \<open>\<^verbatim>\<open>a or b\<close>: the first operand when it is true, the second otherwise.\<close>

definition py_or :: "pyval \<Rightarrow> pyval \<Rightarrow> pyval" where
  "py_or a b = (if truthy a then a else b)"

text \<open>\<^verbatim>\<open>d.get(k)\<close> and \<^verbatim>\<open>d.get(k, default)\<close> on a dict.\<close>

definition dict_get :: "(string \<times> pyval) list \<Rightarrow> string \<Rightarrow> pyval \<Rightarrow> pyval" where
  "dict_get d k dflt = (case map_of d k of Some v \<Rightarrow> v | None \<Rightarrow> dflt)"

definition has_key :: "(string \<times> pyval) list \<Rightarrow> string \<Rightarrow> bool" where
  "has_key d k = (map_of d k \<noteq> None)"

text \<open>\<^verbatim>\<open>v.get(k, default)\<close> on any value: only a dict has the method.\<close>

fun py_get :: "pyval \<Rightarrow> string \<Rightarrow> pyval \<Rightarrow> exn + pyval" where
  "py_get (PDict d) k dflt = Inr (dict_get d k dflt)"
| "py_get v k dflt = Inl AttributeError"

text \<open>\<^verbatim>\<open>sub in s\<close> on two strings: \<open>sub\<close> occurs in \<open>s\<close>.\<close>

fun substring :: "string \<Rightarrow> string \<Rightarrow> bool" where
  "substring sub [] = (sub = [])"
| "substring sub (c # cs) = (take (length sub) (c # cs) = sub \<or> substring sub cs)"

text \<open>
  \<^verbatim>\<open>k in v\<close> for a string \<open>k\<close>: key membership on a dict, element membership on a list,
  substring on a string, \<^verbatim>\<open>TypeError\<close> on everything else.
\<close>

fun py_in :: "string \<Rightarrow> pyval \<Rightarrow> exn + bool" where
  "py_in k (PDict d) = Inr (has_key d k)"
| "py_in k (PList xs) = Inr (PStr k \<in> set xs)"
| "py_in k (PStr s) = Inr (substring k s)"
| "py_in k v = Inl TypeError"

text \<open>\<^verbatim>\<open>v[k]\<close> with a string subscript.\<close>

fun py_item :: "pyval \<Rightarrow> string \<Rightarrow> exn + pyval" where
  "py_item (PDict d) k = (case map_of d k of Some v \<Rightarrow> Inr v | None \<Rightarrow> Inl KeyError)"
| "py_item v k = Inl TypeError"

text \<open>
  Code points in UTF-8: a byte from 128 to 191 continues a code point, any other byte
  starts one, and the first byte tells the number of bytes.
\<close>

definition continuation :: "char \<Rightarrow> bool" where
  "continuation c = (128 \<le> (of_char c :: nat) \<and> (of_char c :: nat) < 192)"

definition cp_len :: "char \<Rightarrow> nat" where
  "cp_len c =
     (let n = (of_char c :: nat)
      in if n < 192 then 1 else if n < 224 then 2 else if n < 240 then 3 else 4)"

definition text_len :: "string \<Rightarrow> nat" where
  "text_len s = length (filter (\<lambda>c. \<not> continuation c) s)"

definition first_cp :: "string \<Rightarrow> string" where
  "first_cp s = (case s of [] \<Rightarrow> [] | c # cs \<Rightarrow> take (cp_len c) s)"

definition last_cp :: "string \<Rightarrow> string" where
  "last_cp s = drop (length s - Suc (length (takeWhile continuation (rev s)))) s"

text \<open>
  \<^verbatim>\<open>v[0]\<close> and \<^verbatim>\<open>v[-1]\<close>. A dict of this model has string keys only, so an integer
  subscript is a missing key.
\<close>

fun py_first :: "pyval \<Rightarrow> exn + pyval" where
  "py_first (PList xs) = (case xs of [] \<Rightarrow> Inl IndexError | x # _ \<Rightarrow> Inr x)"
| "py_first (PStr s) = (if s = [] then Inl IndexError else Inr (PStr (first_cp s)))"
| "py_first (PBytes s) = (case s of [] \<Rightarrow> Inl IndexError | c # _ \<Rightarrow> Inr (PInt (of_char c)))"
| "py_first (PDict d) = Inl KeyError"
| "py_first v = Inl TypeError"

fun py_last :: "pyval \<Rightarrow> exn + pyval" where
  "py_last (PList xs) = (if xs = [] then Inl IndexError else Inr (last xs))"
| "py_last (PStr s) = (if s = [] then Inl IndexError else Inr (PStr (last_cp s)))"
| "py_last (PBytes s) = (if s = [] then Inl IndexError else Inr (PInt (of_char (last s))))"
| "py_last (PDict d) = Inl KeyError"
| "py_last v = Inl TypeError"

text \<open>\<^verbatim>\<open>len(v)\<close>.\<close>

fun py_len :: "pyval \<Rightarrow> exn + nat" where
  "py_len (PStr s) = Inr (text_len s)"
| "py_len (PBytes s) = Inr (length s)"
| "py_len (PList xs) = Inr (length xs)"
| "py_len (PDict d) = Inr (length d)"
| "py_len v = Inl TypeError"

text \<open>\<^verbatim>\<open>s.startswith(p)\<close>.\<close>

definition startswith :: "string \<Rightarrow> string \<Rightarrow> bool" where
  "startswith s p = (take (length p) s = p)"

section \<open>Endpoint capability probe\<close>

text \<open>
  \<^verbatim>\<open>_get_endpoint_task_type\<close> calls the workspace SDK. The call is a parameter
  \<open>lookup\<close>: for an endpoint name it raises (\<open>Inl msg\<close>, \<open>msg\<close> the text of the
  exception) or returns the \<^verbatim>\<open>task\<close> attribute, a string or \<^verbatim>\<open>None\<close>.
  \<^verbatim>\<open>is_endpoint_supported\<close> returns its result together with what it logged.
\<close>

definition supported_prefixes :: "string list" where
  "supported_prefixes = [''agent/'', ''llm/v1/chat'', ''llm/v1/completions'']"

definition str_bool :: "bool \<Rightarrow> string" where
  "str_bool b = (if b then ''True'' else ''False'')"

definition is_endpoint_supported ::
  "(string \<Rightarrow> string + string option) \<Rightarrow> string \<Rightarrow> bool \<times> log" where
  "is_endpoint_supported lookup endpoint_name =
     (case lookup endpoint_name of
        Inl e \<Rightarrow>
          (True, [(WARNING, ''Could not determine task type for endpoint '' @ endpoint_name
                             @ '': '' @ e)])
      | Inr None \<Rightarrow>
          (True, [(WARNING, ''Could not determine task type for endpoint '' @ endpoint_name
                             @ '': '' @ [CHR 0x27] @ ''NoneType'' @ [CHR 0x27]
                             @ '' object has no attribute '' @ [CHR 0x27] @ ''startswith''
                             @ [CHR 0x27])])
      | Inr (Some task_type) \<Rightarrow>
          (let is_supported = list_ex (startswith task_type) supported_prefixes
           in (is_supported,
               [(INFO, ''Endpoint '' @ endpoint_name @ '' has task type: '' @ task_type
                        @ '', supported: '' @ str_bool is_supported)])))"

section \<open>Control flow of a function body\<close>

text \<open>
  A block of statements either raises, returns a value, or runs to its end so that the
  next statement is executed.
\<close>

datatype flow = Raise exn | Return pyval | Next

definition orelse :: "flow \<Rightarrow> flow \<Rightarrow> flow" where
  "orelse a b = (case a of Next \<Rightarrow> b | Raise e \<Rightarrow> Raise e | Return v \<Rightarrow> Return v)"

definition bindE :: "exn + 'a \<Rightarrow> ('a \<Rightarrow> flow) \<Rightarrow> flow" where
  "bindE m f = (case m of Inl e \<Rightarrow> Raise e | Inr v \<Rightarrow> f v)"

definition bindS :: "exn + 'a \<Rightarrow> ('a \<Rightarrow> exn + 'b) \<Rightarrow> exn + 'b" where
  "bindS m f = (case m of Inl e \<Rightarrow> Inl e | Inr v \<Rightarrow> f v)"

section \<open>Typed content parts\<close>

text \<open>
  \<^verbatim>\<open>"".join([part.get("text", "") for part in content if part.get("type") == "text"])\<close>:
  the comprehension calls \<^verbatim>\<open>get\<close> on every part (an \<^verbatim>\<open>AttributeError\<close> on a part that
  is no dict), and \<^verbatim>\<open>join\<close> raises \<^verbatim>\<open>TypeError\<close> on an item that is no string.
\<close>

fun text_parts :: "pyval list \<Rightarrow> exn + pyval list" where
  "text_parts [] = Inr []"
| "text_parts (part # parts) =
     bindS (py_get part ''type'' PNone) (\<lambda>t.
       if t = PStr ''text''
       then bindS (py_get part ''text'' (PStr [])) (\<lambda>v.
              bindS (text_parts parts) (\<lambda>vs. Inr (v # vs)))
       else text_parts parts)"

fun join_strs :: "pyval list \<Rightarrow> exn + string" where
  "join_strs [] = Inr []"
| "join_strs (PStr s # vs) = bindS (join_strs vs) (\<lambda>r. Inr (s @ r))"
| "join_strs (v # vs) = Inl TypeError"

definition join_text_parts :: "pyval list \<Rightarrow> exn + string" where
  "join_text_parts parts = bindS (text_parts parts) join_strs"

section \<open>Chunk content extractor\<close>

text \<open>
  \<^verbatim>\<open>extract_content_from_stream\<close>: five formats are probed one after the other inside
  one \<^verbatim>\<open>try\<close> block; the handler logs and the function then returns \<^verbatim>\<open>None\<close>.
\<close>

definition format1 :: "pyval \<Rightarrow> flow" where
  "format1 chunk =
     bindE (py_in ''choices'' chunk) (\<lambda>present.
       if present
       then bindE (py_item chunk ''choices'') (\<lambda>choices.
            bindE (py_first choices) (\<lambda>choice.
            bindE (py_get choice ''delta'' (PDict [])) (\<lambda>delta.
            bindE (py_in ''content'' delta) (\<lambda>has_content.
              if has_content then bindE (py_item delta ''content'') Return else Next))))
       else Next)"

definition format2 :: "pyval \<Rightarrow> flow" where
  "format2 chunk =
     bindE (py_in ''content'' chunk) (\<lambda>present.
       if present
       then bindE (py_item chunk ''content'') (\<lambda>content.
              case content of
                PStr s \<Rightarrow> Return content
              | PList parts \<Rightarrow> bindE (join_text_parts parts) (\<lambda>s. Return (PStr s))
              | _ \<Rightarrow> Next)
       else Next)"

definition format3 :: "pyval \<Rightarrow> flow" where
  "format3 chunk =
     bindE (py_in ''text'' chunk) (\<lambda>present.
       if present then bindE (py_item chunk ''text'') Return else Next)"

definition format4 :: "pyval \<Rightarrow> flow" where
  "format4 chunk =
     bindE (py_in ''output'' chunk) (\<lambda>present.
       if present
       then bindE (py_item chunk ''output'') (\<lambda>output.
              case output of
                PStr s \<Rightarrow> Return output
              | PDict d \<Rightarrow>
                  (if has_key d ''text'' then bindE (py_item output ''text'') Return
                   else if has_key d ''content'' then bindE (py_item output ''content'') Return
                   else Next)
              | _ \<Rightarrow> Next)
       else Next)"

definition format5 :: "pyval \<Rightarrow> flow" where
  "format5 chunk =
     bindE (py_in ''delta'' chunk) (\<lambda>present.
       if present
       then bindE (py_item chunk ''delta'') (\<lambda>delta.
              case delta of
                PStr s \<Rightarrow> Return delta
              | PDict d \<Rightarrow>
                  (if has_key d ''content'' then bindE (py_item delta ''content'') Return
                   else Next)
              | _ \<Rightarrow> Next)
       else Next)"

definition extract_body :: "pyval \<Rightarrow> flow" where
  "extract_body chunk =
     orelse (format1 chunk) (orelse (format2 chunk) (orelse (format3 chunk)
       (orelse (format4 chunk) (format5 chunk))))"

definition extract_content_from_stream :: "pyval \<Rightarrow> pyval" where
  "extract_content_from_stream chunk =
     (case extract_body chunk of
        Return v \<Rightarrow> v
      | Raise e \<Rightarrow> PNone
      | Next \<Rightarrow> PNone)"

section \<open>Message encoder and non-streaming executor\<close>

definition convert_messages_to_input :: "pyval list \<Rightarrow> pyval list" where
  "convert_messages_to_input messages =
     (if messages \<noteq> [] then messages
      else [PDict [(''role'', PStr ''user''), (''content'', PStr [])]])"

text \<open>
  The deployment client is a parameter \<open>predict\<close>: given the endpoint name and the
  request envelope it raises (\<open>Inl msg\<close>, \<open>msg\<close> the text of the exception) or returns
  the payload. \<^verbatim>\<open>str\<close> on a payload value is the parameter \<open>str\<close>. The logging calls
  of \<^verbatim>\<open>query_endpoint\<close> do not influence its result and are left out.
\<close>

definition assistant :: "string \<Rightarrow> pyval \<Rightarrow> pyval" where
  "assistant content res =
     PDict [(''role'', PStr ''assistant''), (''content'', PStr content), (''raw_response'', res)]"

text \<open>The classification of the agent-format payload (source lines 113 to 129).\<close>

definition agent_reply :: "(pyval \<Rightarrow> string) \<Rightarrow> pyval \<Rightarrow> pyval" where
  "agent_reply str res =
     (case res of
        PDict d \<Rightarrow>
          (case map_of d ''output'' of Some content \<Rightarrow> assistant (str content) res
           | None \<Rightarrow>
          (case map_of d ''content'' of Some content \<Rightarrow> assistant (str content) res
           | None \<Rightarrow>
          (case map_of d ''text'' of Some content \<Rightarrow> assistant (str content) res
           | None \<Rightarrow>
          (case map_of d ''result'' of Some content \<Rightarrow> assistant (str content) res
           | None \<Rightarrow> assistant (str res) res))))
      | _ \<Rightarrow> assistant (str res) res)"

text \<open>The classification of the chat-format payload (source lines 142 to 164).\<close>

definition choices_reply :: "(pyval \<Rightarrow> string) \<Rightarrow> pyval \<Rightarrow> flow" where
  "choices_reply str res =
     bindE (py_item res ''choices'') (\<lambda>choices.
     bindE (py_first choices) (\<lambda>choice.
     bindE (py_item choice ''message'') (\<lambda>choice_message.
     bindE (py_get choice_message ''content'' PNone) (\<lambda>choice_content.
       case choice_content of
         PList parts \<Rightarrow>
           bindE (join_text_parts parts) (\<lambda>combined_content.
           bindE (py_get choice_message ''role'' (PStr ''assistant'')) (\<lambda>role.
             Return (PDict [(''role'', role), (''content'', PStr combined_content)])))
       | PStr s \<Rightarrow> Return choice_message
       | _ \<Rightarrow> Return (PDict [(''role'', PStr ''assistant''),
                                (''content'', PStr (str choice_content))])))))"

definition chat_reply :: "(pyval \<Rightarrow> string) \<Rightarrow> pyval \<Rightarrow> flow" where
  "chat_reply str res =
     bindE (py_in ''messages'' res) (\<lambda>has_messages.
       if has_messages
       then bindE (py_item res ''messages'') (\<lambda>msgs.
              if truthy msgs then bindE (py_last msgs) Return
              else Return (PDict [(''role'', PStr ''assistant''),
                                  (''content'', PStr ''No response'')]))
       else bindE (py_in ''choices'' res) (\<lambda>has_choices.
              if has_choices then choices_reply str res
              else Return (PDict [(''role'', PStr ''assistant''),
                                  (''content'', PStr (str res))])))"

definition agent_inputs :: "pyval list \<Rightarrow> int \<Rightarrow> bool \<Rightarrow> pyval" where
  "agent_inputs messages max_tokens stream =
     PDict [(''input'', PList (convert_messages_to_input messages)),
            (''max_output_tokens'', PInt max_tokens),
            (''stream'', PBool stream)]"

definition chat_inputs :: "pyval list \<Rightarrow> int \<Rightarrow> pyval" where
  "chat_inputs messages max_tokens =
     PDict [(''messages'', PList messages), (''max_tokens'', PInt max_tokens)]"

definition query_endpoint ::
  "(string \<Rightarrow> pyval \<Rightarrow> string + pyval) \<Rightarrow> (pyval \<Rightarrow> string) \<Rightarrow>
     string \<Rightarrow> pyval list \<Rightarrow> int \<Rightarrow> exn + pyval" where
  "query_endpoint predict str endpoint_name messages max_tokens =
     (case predict endpoint_name (agent_inputs messages max_tokens False) of
        Inr res \<Rightarrow> Inr (agent_reply str res)
      | Inl custom_error \<Rightarrow>
          (case (case predict endpoint_name (chat_inputs messages max_tokens) of
                   Inl e \<Rightarrow> Raise (Exception e)
                 | Inr res \<Rightarrow> chat_reply str res) of
             Return message \<Rightarrow> Inr message
           | Next \<Rightarrow> Inr PNone
           | Raise e \<Rightarrow>
               Inl (Exception (''Failed to query endpoint '' @ endpoint_name
                               @ '' with custom format: '' @ custom_error))))"

section \<open>The extractor as the specification words it\<close>

text \<open>
  The five shapes as the specification lists them, each yielding the text it finds or
  nothing, and the extraction as the first shape that yields something.
\<close>

fun tagged_text :: "pyval \<Rightarrow> string" where
  "tagged_text (PDict p) =
     (if dict_get p ''type'' PNone = PStr ''text''
      then (case dict_get p ''text'' (PStr []) of PStr s \<Rightarrow> s | _ \<Rightarrow> [])
      else [])"
| "tagged_text v = []"

definition spec_shape1 :: "(string \<times> pyval) list \<Rightarrow> pyval option" where
  "spec_shape1 d =
     (case map_of d ''choices'' of
        Some (PList (PDict choice # rest)) \<Rightarrow>
          (case map_of choice ''delta'' of
             Some (PDict delta) \<Rightarrow> map_of delta ''content''
           | _ \<Rightarrow> None)
      | _ \<Rightarrow> None)"

definition spec_shape2 :: "(string \<times> pyval) list \<Rightarrow> pyval option" where
  "spec_shape2 d =
     (case map_of d ''content'' of
        Some (PStr s) \<Rightarrow> Some (PStr s)
      | Some (PList parts) \<Rightarrow> Some (PStr (concat (map tagged_text parts)))
      | _ \<Rightarrow> None)"

definition spec_shape3 :: "(string \<times> pyval) list \<Rightarrow> pyval option" where
  "spec_shape3 d = map_of d ''text''"

definition spec_shape4 :: "(string \<times> pyval) list \<Rightarrow> pyval option" where
  "spec_shape4 d =
     (case map_of d ''output'' of
        Some (PStr s) \<Rightarrow> Some (PStr s)
      | Some (PDict out) \<Rightarrow>
          (case map_of out ''text'' of Some v \<Rightarrow> Some v | None \<Rightarrow> map_of out ''content'')
      | _ \<Rightarrow> None)"

definition spec_shape5 :: "(string \<times> pyval) list \<Rightarrow> pyval option" where
  "spec_shape5 d =
     (case map_of d ''delta'' of
        Some (PStr s) \<Rightarrow> Some (PStr s)
      | Some (PDict delta) \<Rightarrow> map_of delta ''content''
      | _ \<Rightarrow> None)"

fun first_match :: "pyval option list \<Rightarrow> pyval" where
  "first_match [] = PNone"
| "first_match (Some v # rest) = v"
| "first_match (None # rest) = first_match rest"

definition spec_extract :: "(string \<times> pyval) list \<Rightarrow> pyval" where
  "spec_extract d =
     first_match [spec_shape1 d, spec_shape2 d, spec_shape3 d, spec_shape4 d, spec_shape5 d]"

fun raises :: "flow \<Rightarrow> bool" where
  "raises (Raise e) = True"
| "raises f = False"

fun result_of :: "pyval option \<Rightarrow> flow" where
  "result_of None = Next"
| "result_of (Some v) = Return v"

section \<open>Payload shapes and sample endpoints\<close>





text \<open>
  Three endpoints for concrete runs: one that answers the agent format, one that rejects
  the agent format and answers the chat format with a \<^verbatim>\<open>choices\<close> payload, and one
  that rejects both.
\<close>

definition agent_endpoint :: "string \<Rightarrow> pyval \<Rightarrow> string + pyval" where
  "agent_endpoint endpoint inputs = Inr (PDict [(''output'', PStr ''done'')])"

definition chat_only_endpoint :: "string \<Rightarrow> pyval \<Rightarrow> string + pyval" where
  "chat_only_endpoint endpoint inputs =
     (case inputs of
        PDict d \<Rightarrow>
          if has_key d ''input'' then Inl ''400 Bad Request''
          else Inr (PDict [(''choices'', PList [PDict [(''message'',
                      PDict [(''role'', PStr ''assistant''), (''content'', PStr ''hi'')])]])])
      | _ \<Rightarrow> Inl ''400 Bad Request'')"





section \<open>Text operations\<close>

text \<open>
  White space as \<^verbatim>\<open>str.strip()\<close> and the pattern class \<^verbatim>\<open>\s\<close> see it, the code points of
  \<^verbatim>\<open>str.isspace\<close>: U+0009 to U+000D, U+001C to U+0020, U+0085, U+00A0, U+1680, U+2000
  to U+200A, U+2028, U+2029, U+202F, U+205F and U+3000. \<open>space_len\<close> is the number of
  bytes of the white space code point at the head of a text, and 0 when there is none.
\<close>

definition space_len :: "string \<Rightarrow> nat" where
  "space_len s =
     (case map of_char (take 3 s) of
        [] \<Rightarrow> 0
      | a # rest \<Rightarrow>
          if (9 \<le> a \<and> a \<le> (13::nat)) \<or> (28 \<le> a \<and> a \<le> 32) then 1
          else (case rest of
                  [] \<Rightarrow> 0
                | b # rest' \<Rightarrow>
                    if a = 194 \<and> (b = 133 \<or> b = 160) then 2
                    else (case rest' of
                            [] \<Rightarrow> 0
                          | c # _ \<Rightarrow>
                              if (a = 225 \<and> b = 154 \<and> c = 128) \<or>
                                 (a = 226 \<and> b = 128 \<and>
                                    ((128 \<le> c \<and> c \<le> 138) \<or> c = 168 \<or> c = 169 \<or> c = 175)) \<or>
                                 (a = 226 \<and> b = 129 \<and> c = 159) \<or>
                                 (a = 227 \<and> b = 128 \<and> c = 128)
                              then 3 else 0)))"

function lstrip :: "string \<Rightarrow> string" where
  "lstrip s = (if space_len s = 0 then s else lstrip (drop (space_len s) s))"
  by pat_completeness auto
termination
proof (relation "measure length")
  show "wf (measure length)" by simp
next
  fix s :: string
  assume "space_len s \<noteq> 0"
  then have "s \<noteq> []" by (auto simp: space_len_def)
  with \<open>space_len s \<noteq> 0\<close> show "(drop (space_len s) s, s) \<in> measure length" by simp
qed

function all_space :: "string \<Rightarrow> bool" where
  "all_space s =
     (if s = [] then True
      else if space_len s = 0 then False
      else all_space (drop (space_len s) s))"
  by pat_completeness auto
termination
proof (relation "measure length")
  show "wf (measure length)" by simp
next
  fix s :: string
  assume "s \<noteq> []" and "space_len s \<noteq> 0"
  then show "(drop (space_len s) s, s) \<in> measure length" by simp
qed

fun rstrip :: "string \<Rightarrow> string" where
  "rstrip [] = []"
| "rstrip (c # cs) = (if all_space (c # cs) then [] else c # rstrip cs)"

text \<open>\<^verbatim>\<open>s.strip()\<close>.\<close>

definition strip :: "string \<Rightarrow> string" where
  "strip s = rstrip (lstrip s)"

text \<open>\<^verbatim>\<open>s.split('\n')\<close>: cut at every line feed; at least one piece.\<close>

fun split_lines :: "string \<Rightarrow> string list" where
  "split_lines [] = [[]]"
| "split_lines (c # cs) =
     (if c = CHR 0x0A then [] # split_lines cs
      else (case split_lines cs of
              [] \<Rightarrow> [[c]]
            | l # ls \<Rightarrow> (c # l) # ls))"

text \<open>\<^verbatim>\<open>s.replace(old, new)\<close> for a non-empty \<open>old\<close>: every occurrence, from the left.\<close>

function replace :: "string \<Rightarrow> string \<Rightarrow> string \<Rightarrow> string" where
  "replace old new [] = []"
| "replace old new (c # cs) =
     (if startswith (c # cs) old
      then new @ replace old new (drop (length old - 1) cs)
      else c # replace old new cs)"
  by pat_completeness auto
termination
  by (relation "measure (\<lambda>(old, new, s). length s)") auto

section \<open>Streaming executor\<close>

text \<open>
  \<^verbatim>\<open>json.loads\<close> is a parameter \<open>loads\<close> of the functions that call it: on a text it
  returns a value or raises. \<^verbatim>\<open>JSONDecodeError\<close> is the exception the source handles
  next to the call; the decoder can also raise others (\<^verbatim>\<open>RecursionError\<close> on a deeply
  nested document, \<^verbatim>\<open>ValueError\<close> on an integer with too many digits), and those leave
  the inner handlers.

  A log entry of the streaming executor is a level, the text of the message, and the
  exception whose text the message ends with, if there is one.
\<close>

type_synonym stream_log = "(level \<times> string \<times> exn option) list"

text \<open>
  The body of the loop over the lines of a text chunk (source lines 74 to 83): the
  fragments the line yields, what it logs, and the exception it raises, if any.
\<close>

definition process_line ::
  "(string \<Rightarrow> exn + pyval) \<Rightarrow> string \<Rightarrow> pyval list \<times> stream_log \<times> exn option" where
  "process_line loads line =
     (if startswith line ''data: ''
      then (let json_str = drop 6 line
            in if strip json_str = ''[DONE]'' then ([], [], None)
               else (case loads json_str of
                       Inr data \<Rightarrow> ([data], [], None)
                     | Inl e \<Rightarrow>
                         if e = JSONDecodeError
                         then ([], [(WARNING, ''Could not parse JSON: '' @ json_str, None)], None)
                         else ([], [], Some e)))
      else ([], [], None))"

fun process_lines ::
  "(string \<Rightarrow> exn + pyval) \<Rightarrow> string list \<Rightarrow> pyval list \<times> stream_log \<times> exn option" where
  "process_lines loads [] = ([], [], None)"
| "process_lines loads (line # lines) =
     (case process_line loads line of
        (ys, lg, Some e) \<Rightarrow> (ys, lg, Some e)
      | (ys, lg, None) \<Rightarrow>
          (case process_lines loads lines of (ys', lg', r) \<Rightarrow> (ys @ ys', lg @ lg', r)))"

text \<open>
  One chunk of the response (source lines 68 to 85). \<open>decode\<close> is
  \<^verbatim>\<open>bytes.decode('utf-8')\<close>, a parameter: \<open>None\<close> is \<^verbatim>\<open>UnicodeDecodeError\<close>.
\<close>

definition process_chunk ::
  "(string \<Rightarrow> string option) \<Rightarrow> (string \<Rightarrow> exn + pyval) \<Rightarrow> pyval
     \<Rightarrow> pyval list \<times> stream_log \<times> exn option" where
  "process_chunk decode loads chunk =
     (case chunk of
        PBytes b \<Rightarrow>
          (case decode b of
             None \<Rightarrow> ([], [], Some UnicodeDecodeError)
           | Some text \<Rightarrow> process_lines loads (split_lines (strip text)))
      | PStr text \<Rightarrow> process_lines loads (split_lines (strip text))
      | PDict d \<Rightarrow> ([chunk], [], None)
      | _ \<Rightarrow> ([], [], None))"

text \<open>
  The generator, run to its end over the chunks the transport delivers: the fragments
  it yields, the log, and the exception that ends it, if any (logged as an error and
  raised again, source lines 87 to 89).
\<close>

fun process_chunks ::
  "(string \<Rightarrow> string option) \<Rightarrow> (string \<Rightarrow> exn + pyval) \<Rightarrow> pyval list
     \<Rightarrow> pyval list \<times> stream_log \<times> exn option" where
  "process_chunks decode loads [] = ([], [], None)"
| "process_chunks decode loads (chunk # chunks) =
     (case process_chunk decode loads chunk of
        (ys, lg, Some e) \<Rightarrow> (ys, lg @ [(ERROR, ''Streaming failed: '', Some e)], Some e)
      | (ys, lg, None) \<Rightarrow>
          (case process_chunks decode loads chunks of
             (ys', lg', r) \<Rightarrow> (ys @ ys', lg @ lg', r)))"

definition query_endpoint_stream ::
  "(string \<Rightarrow> pyval \<Rightarrow> string + pyval list) \<Rightarrow> (string \<Rightarrow> string option) \<Rightarrow>
     (string \<Rightarrow> exn + pyval) \<Rightarrow> string \<Rightarrow> pyval list \<Rightarrow> int
     \<Rightarrow> pyval list \<times> stream_log \<times> exn option" where
  "query_endpoint_stream predict decode loads endpoint_name messages max_tokens =
     (case predict endpoint_name (agent_inputs messages max_tokens True) of
        Inl e \<Rightarrow> ([], [(ERROR, ''Streaming failed: '', Some (Exception e))], Some (Exception e))
      | Inr response \<Rightarrow> process_chunks decode loads response)"

text \<open>
  The lines of a chunk by what the loop does with them: the end-of-stream marker, a
  line that yields a fragment, a line that is logged and passed over.
\<close>

definition done_line :: "string \<Rightarrow> bool" where
  "done_line line = (startswith line ''data: '' \<and> strip (drop 6 line) = ''[DONE]'')"

definition data_line :: "string \<Rightarrow> bool" where
  "data_line line = (startswith line ''data: '' \<and> strip (drop 6 line) \<noteq> ''[DONE]'')"

definition malformed_line :: "(string \<Rightarrow> exn + pyval) \<Rightarrow> string \<Rightarrow> bool" where
  "malformed_line loads line = (data_line line \<and> loads (drop 6 line) = Inl JSONDecodeError)"

definition fragment_of :: "(string \<Rightarrow> exn + pyval) \<Rightarrow> string \<Rightarrow> pyval option" where
  "fragment_of loads line =
     (if data_line line
      then (case loads (drop 6 line) of Inr data \<Rightarrow> Some data | Inl e \<Rightarrow> None)
      else None)"

definition aborting_line :: "(string \<Rightarrow> exn + pyval) \<Rightarrow> string \<Rightarrow> bool" where
  "aborting_line loads line =
     (data_line line \<and>
      (case loads (drop 6 line) of Inr data \<Rightarrow> False | Inl e \<Rightarrow> e \<noteq> JSONDecodeError))"

section \<open>A JSON decoder for concrete runs\<close>

text \<open>
  The general properties below hold for every \<open>loads\<close>. Concrete runs use
  \<open>json_loads\<close>, a decoder that follows the scanner of Python's \<^verbatim>\<open>json\<close> module:
  white space is blank, tab, line feed and carriage return; a number without fraction
  and exponent is an integer, and \<^verbatim>\<open>NaN\<close>, \<^verbatim>\<open>Infinity\<close> and \<^verbatim>\<open>-Infinity\<close> are accepted;
  a control character inside a string is an error; an escape \<^verbatim>\<open>\uXXXX\<close> gives the code
  point, a high surrogate followed by an escaped low surrogate gives the code point of
  the pair; a repeated key keeps its first position and its last value; text after the
  document is an error. An integer of more than 4300 digits raises \<^verbatim>\<open>ValueError\<close> (the
  interpreter's default limit on integer conversion), and a document nested deeper than
  the recursion depth available to the scanner raises \<^verbatim>\<open>RecursionError\<close>; that depth
  is the parameter \<open>depth\<close> of \<open>json_decode\<close>. The recursion of the model is bounded
  by the length of the text, which every document respects.
\<close>

definition json_ws :: "char \<Rightarrow> bool" where
  "json_ws c = (c = CHR '' '' \<or> c = CHR 0x09 \<or> c = CHR 0x0A \<or> c = CHR 0x0D)"

definition skip_ws :: "string \<Rightarrow> string" where
  "skip_ws s = dropWhile json_ws s"

definition is_digit :: "char \<Rightarrow> bool" where
  "is_digit c = (48 \<le> (of_char c :: nat) \<and> (of_char c :: nat) \<le> 57)"

definition digit_val :: "char \<Rightarrow> nat" where
  "digit_val c = of_char c - 48"

definition hex_val :: "char \<Rightarrow> nat option" where
  "hex_val c =
     (if is_digit c then Some (digit_val c)
      else if 97 \<le> (of_char c :: nat) \<and> (of_char c :: nat) \<le> 102 then Some (of_char c - 87)
      else if 65 \<le> (of_char c :: nat) \<and> (of_char c :: nat) \<le> 70 then Some (of_char c - 55)
      else None)"

definition hex4 :: "char \<Rightarrow> char \<Rightarrow> char \<Rightarrow> char \<Rightarrow> nat option" where
  "hex4 a b c d =
     (case (hex_val a, hex_val b, hex_val c, hex_val d) of
        (Some w, Some x, Some y, Some z) \<Rightarrow> Some (((w * 16 + x) * 16 + y) * 16 + z)
      | _ \<Rightarrow> None)"

definition unescape :: "char \<Rightarrow> char option" where
  "unescape e =
     (if e = CHR 0x22 then Some (CHR 0x22)
      else if e = CHR 0x5C then Some (CHR 0x5C)
      else if e = CHR ''/'' then Some (CHR ''/'')
      else if e = CHR ''b'' then Some (CHR 0x08)
      else if e = CHR ''f'' then Some (CHR 0x0C)
      else if e = CHR ''n'' then Some (CHR 0x0A)
      else if e = CHR ''r'' then Some (CHR 0x0D)
      else if e = CHR ''t'' then Some (CHR 0x09)
      else None)"

text \<open>The UTF-8 bytes of a code point.\<close>

definition utf8 :: "nat \<Rightarrow> string" where
  "utf8 n =
     (if n < 128 then [char_of n]
      else if n < 2048 then [char_of (192 + n div 64), char_of (128 + n mod 64)]
      else if n < 65536
      then [char_of (224 + n div 4096), char_of (128 + n div 64 mod 64), char_of (128 + n mod 64)]
      else [char_of (240 + n div 262144), char_of (128 + n div 4096 mod 64),
            char_of (128 + n div 64 mod 64), char_of (128 + n mod 64)])"

definition high_surrogate :: "nat \<Rightarrow> bool" where
  "high_surrogate n = (55296 \<le> n \<and> n < 56320)"

definition low_surrogate :: "nat \<Rightarrow> bool" where
  "low_surrogate n = (56320 \<le> n \<and> n < 57344)"

definition join_surrogates :: "nat \<Rightarrow> nat \<Rightarrow> nat" where
  "join_surrogates hi lo = 65536 + (hi - 55296) * 1024 + (lo - 56320)"

definition prepend :: "string \<Rightarrow> (string \<times> string) option \<Rightarrow> (string \<times> string) option" where
  "prepend p r = (case r of None \<Rightarrow> None | Some (s, t) \<Rightarrow> Some (p @ s, t))"

text \<open>The text of a string after its opening quote, and what follows the closing quote.\<close>

fun scan_string :: "string \<Rightarrow> (string \<times> string) option" where
  "scan_string [] = None"
| "scan_string (c # cs) =
     (if c = CHR 0x22 then Some ([], cs)
      else if c = CHR 0x5C then
        (case cs of
           [] \<Rightarrow> None
         | e # r \<Rightarrow>
             (if e = CHR ''u'' then
                (case r of
                   h1 # h2 # h3 # h4 # r' \<Rightarrow>
                     (case hex4 h1 h2 h3 h4 of
                        None \<Rightarrow> None
                      | Some n \<Rightarrow>
                          (case r' of
                             b # u # g1 # g2 # g3 # g4 # r'' \<Rightarrow>
                               (if high_surrogate n \<and> b = CHR 0x5C \<and> u = CHR ''u''
                                then (case hex4 g1 g2 g3 g4 of
                                        None \<Rightarrow> None
                                      | Some n2 \<Rightarrow>
                                          if low_surrogate n2
                                          then prepend (utf8 (join_surrogates n n2))
                                                 (scan_string r'')
                                          else prepend (utf8 n) (scan_string r'))
                                else prepend (utf8 n) (scan_string r'))
                           | _ \<Rightarrow> prepend (utf8 n) (scan_string r')))
                 | _ \<Rightarrow> None)
              else (case unescape e of
                      Some x \<Rightarrow> prepend [x] (scan_string r)
                    | None \<Rightarrow> None)))
      else if (of_char c :: nat) < 32 then None
      else prepend [c] (scan_string cs))"

definition digits_val :: "string \<Rightarrow> int" where
  "digits_val ds = foldl (\<lambda>acc c. acc * 10 + int (digit_val c)) 0 ds"

text \<open>
  A number at the start of the text, as the scanner's pattern
  \<^verbatim>\<open>(-?(?:0|[1-9][0-9]*))(\.[0-9]+)?([eE][-+]?[0-9]+)?\<close> matches it.
\<close>

definition scan_number :: "string \<Rightarrow> (exn + pyval \<times> string) option" where
  "scan_number s =
     (let sign = (if s \<noteq> [] \<and> hd s = CHR ''-'' then ''-'' else []);
          r0 = drop (length sign) s;
          ip = (if r0 \<noteq> [] \<and> hd r0 = CHR ''0'' then ''0'' else takeWhile is_digit r0);
          r1 = drop (length ip) r0;
          fd = (if r1 \<noteq> [] \<and> hd r1 = CHR ''.'' then takeWhile is_digit (tl r1) else []);
          frac = (if fd = [] then [] else CHR ''.'' # fd);
          r2 = drop (length frac) r1;
          em = (if r2 \<noteq> [] \<and> (hd r2 = CHR ''e'' \<or> hd r2 = CHR ''E'') then [hd r2] else []);
          r3 = drop (length em) r2;
          es = (if em \<noteq> [] \<and> r3 \<noteq> [] \<and> (hd r3 = CHR ''+'' \<or> hd r3 = CHR ''-'')
                then [hd r3] else []);
          ed = (if em = [] then [] else takeWhile is_digit (drop (length es) r3));
          ex = (if ed = [] then [] else em @ es @ ed);
          rest = drop (length ex) r2;
          m = digits_val (ip @ (if frac = [] then [] else fd));
          e = (if ex = [] then 0 else if es = ''-'' then - digits_val ed else digits_val ed)
                - (if frac = [] then 0 else int (length fd))
      in if ip = [] then None
         else if frac = [] \<and> ex = []
         then (if 4300 < length ip then Some (Inl ValueError)
               else Some (Inr (PInt (if sign = [] then m else - m), rest)))
         else Some (Inr (PFloat (Dec (if sign = [] then m else - m) e), rest)))"

definition scan_literal :: "string \<Rightarrow> exn + pyval \<times> string" where
  "scan_literal s =
     (if startswith s ''null'' then Inr (PNone, drop 4 s)
      else if startswith s ''true'' then Inr (PBool True, drop 4 s)
      else if startswith s ''false'' then Inr (PBool False, drop 5 s)
      else (case scan_number s of
              Some r \<Rightarrow> r
            | None \<Rightarrow>
                (if startswith s ''NaN'' then Inr (PFloat NaN, drop 3 s)
                 else if startswith s ''Infinity'' then Inr (PFloat (Inf True), drop 8 s)
                 else if startswith s ''-Infinity'' then Inr (PFloat (Inf False), drop 9 s)
                 else Inl JSONDecodeError)))"

text \<open>\<^verbatim>\<open>d[k] = v\<close> on a dict: a new key goes to the end, a known key keeps its place.\<close>

fun dict_set :: "(string \<times> pyval) list \<Rightarrow> string \<Rightarrow> pyval \<Rightarrow> (string \<times> pyval) list" where
  "dict_set [] k v = [(k, v)]"
| "dict_set ((k', v') # d) k v = (if k' = k then (k, v) # d else (k', v') # dict_set d k v)"

text \<open>
  A value at the head of the text; the elements of an array after its opening bracket;
  the members of an object after its opening brace. The first argument bounds the
  recursion of the model, the second is the recursion depth still available.
\<close>

fun decode_value :: "nat \<Rightarrow> nat \<Rightarrow> string \<Rightarrow> exn + pyval \<times> string"
  and decode_elems :: "nat \<Rightarrow> nat \<Rightarrow> string \<Rightarrow> pyval list \<Rightarrow> exn + pyval \<times> string"
  and decode_members ::
    "nat \<Rightarrow> nat \<Rightarrow> string \<Rightarrow> (string \<times> pyval) list \<Rightarrow> exn + pyval \<times> string"
where
  "decode_value 0 depth s = Inl JSONDecodeError"
| "decode_value (Suc n) depth s =
     (if s = [] then Inl JSONDecodeError
      else if hd s = CHR 0x22 then
        (case scan_string (tl s) of
           None \<Rightarrow> Inl JSONDecodeError
         | Some (str, t) \<Rightarrow> Inr (PStr str, t))
      else if hd s = CHR ''{'' then
        (if depth = 0 then Inl RecursionError
         else (let r = skip_ws (tl s)
               in if r \<noteq> [] \<and> hd r = CHR ''}'' then Inr (PDict [], tl r)
                  else decode_members n (depth - 1) r []))
      else if hd s = CHR ''['' then
        (if depth = 0 then Inl RecursionError
         else (let r = skip_ws (tl s)
               in if r \<noteq> [] \<and> hd r = CHR '']'' then Inr (PList [], tl r)
                  else decode_elems n (depth - 1) r []))
      else scan_literal s)"
| "decode_elems 0 depth s acc = Inl JSONDecodeError"
| "decode_elems (Suc n) depth s acc =
     (case decode_value n depth s of
        Inl e \<Rightarrow> Inl e
      | Inr (v, t) \<Rightarrow>
          (let r = skip_ws t
           in if r = [] then Inl JSONDecodeError
              else if hd r = CHR '']'' then Inr (PList (acc @ [v]), tl r)
              else if hd r = CHR '','' then decode_elems n depth (skip_ws (tl r)) (acc @ [v])
              else Inl JSONDecodeError))"
| "decode_members 0 depth s acc = Inl JSONDecodeError"
| "decode_members (Suc n) depth s acc =
     (if s = [] \<or> hd s \<noteq> CHR 0x22 then Inl JSONDecodeError
      else (case scan_string (tl s) of
              None \<Rightarrow> Inl JSONDecodeError
            | Some (key, t) \<Rightarrow>
                (let r = skip_ws t
                 in if r = [] \<or> hd r \<noteq> CHR '':'' then Inl JSONDecodeError
                    else (case decode_value n depth (skip_ws (tl r)) of
                            Inl e \<Rightarrow> Inl e
                          | Inr (v, t') \<Rightarrow>
                              (let r' = skip_ws t'
                               in if r' = [] then Inl JSONDecodeError
                                  else if hd r' = CHR ''}''
                                  then Inr (PDict (dict_set acc key v), tl r')
                                  else if hd r' = CHR '',''
                                  then decode_members n depth (skip_ws (tl r'))
                                         (dict_set acc key v)
                                  else Inl JSONDecodeError)))))"



section \<open>Code fences and the fallback pattern\<close>

text \<open>
  \<^verbatim>\<open>text.replace('```json', '').replace('```', '')\<close> (source line 300); the backquote is
  character 96.
\<close>

definition fence :: string where
  "fence = [CHR 0x60, CHR 0x60, CHR 0x60]"

definition strip_fences :: "string \<Rightarrow> string" where
  "strip_fences text = replace fence [] (replace (fence @ ''json'') [] text)"

text \<open>
  The pattern language of the one regular expression in the source, with the matching
  order of a backtracking matcher: a lazy repetition first tries to go on with the rest
  of the pattern, a greedy repetition and an optional group first try to consume. An
  atom matches one character, that is one code point: \<open>atom_len\<close> is the number of its
  bytes, and 0 when the atom does not match at the head of the text. \<open>rx_match\<close> gives
  the length of the first match that starts at the head of the text; \<open>Eos\<close> is \<^verbatim>\<open>$\<close>
  without the multi-line flag: the end of the text, or the position before a final line
  feed. \<open>re_search\<close> is \<^verbatim>\<open>re.search(...).group()\<close>: the match at the leftmost start
  position that has one, a start position being the beginning of a code point or the
  end of the text.
\<close>

datatype atom = Ch char | AnyCh | Space

datatype rx = One atom | LazyStar atom | GreedyStar atom | Opt "rx list" | Eos

fun atom_len :: "atom \<Rightarrow> string \<Rightarrow> nat" where
  "atom_len a [] = 0"
| "atom_len (Ch x) (c # cs) = (if c = x then 1 else 0)"
| "atom_len AnyCh (c # cs) = cp_len c"
| "atom_len Space (c # cs) = space_len (c # cs)"

function rx_match :: "rx list \<Rightarrow> string \<Rightarrow> nat option" where
  "rx_match [] s = Some 0"
| "rx_match (One a # ps) s =
     (if atom_len a s = 0 then None
      else map_option (\<lambda>k. atom_len a s + k) (rx_match ps (drop (atom_len a s) s)))"
| "rx_match (LazyStar a # ps) s =
     (case rx_match ps s of
        Some k \<Rightarrow> Some k
      | None \<Rightarrow>
          (if atom_len a s = 0 then None
           else map_option (\<lambda>k. atom_len a s + k)
                  (rx_match (LazyStar a # ps) (drop (atom_len a s) s))))"
| "rx_match (GreedyStar a # ps) s =
     (if atom_len a s = 0 then rx_match ps s
      else (case rx_match (GreedyStar a # ps) (drop (atom_len a s) s) of
              Some k \<Rightarrow> Some (atom_len a s + k)
            | None \<Rightarrow> rx_match ps s))"
| "rx_match (Opt g # ps) s =
     (case rx_match (g @ ps) s of
        Some k \<Rightarrow> Some k
      | None \<Rightarrow> rx_match ps s)"
| "rx_match (Eos # ps) s =
     (if s = [] \<or> s = [CHR 0x0A] then rx_match ps s else None)"
  by pat_completeness auto
termination
proof (relation "measures [\<lambda>(ps, s). length s, \<lambda>(ps, s). size_list size ps]")
  fix a :: atom and s :: string
  assume "atom_len a s \<noteq> 0"
  then have "s \<noteq> []" by (cases s) auto
  with \<open>atom_len a s \<noteq> 0\<close> have "length (drop (atom_len a s) s) < length s" by simp
  then show "\<And>ps. ((ps, drop (atom_len a s) s), One a # ps, s)
      \<in> measures [\<lambda>(ps, s). length s, \<lambda>(ps, s). size_list size ps]"
    and "\<And>ps. ((LazyStar a # ps, drop (atom_len a s) s), LazyStar a # ps, s)
      \<in> measures [\<lambda>(ps, s). length s, \<lambda>(ps, s). size_list size ps]"
    and "\<And>ps. ((GreedyStar a # ps, drop (atom_len a s) s), GreedyStar a # ps, s)
      \<in> measures [\<lambda>(ps, s). length s, \<lambda>(ps, s). size_list size ps]"
    by simp_all
qed auto

fun re_search :: "rx list \<Rightarrow> string \<Rightarrow> string option" where
  "re_search ps [] = (case rx_match ps [] of Some k \<Rightarrow> Some [] | None \<Rightarrow> None)"
| "re_search ps (c # cs) =
     (if continuation c then re_search ps cs
      else (case rx_match ps (c # cs) of
              Some k \<Rightarrow> Some (take k (c # cs))
            | None \<Rightarrow> re_search ps cs))"

definition lit :: "string \<Rightarrow> rx list" where
  "lit s = map (\<lambda>c. One (Ch c)) s"

text \<open>
  \<^verbatim>\<open>\{[\s\S]*?"query_understanding"[\s\S]*?"results"[\s\S]*?\}(?:\s*\})?$\<close>
  (source line 310). The class \<^verbatim>\<open>[\s\S]\<close> is every character.
\<close>

definition json_pattern :: "rx list" where
  "json_pattern =
     [One (Ch CHR ''{''), LazyStar AnyCh] @ lit ''\"query_understanding\"'' @
     [LazyStar AnyCh] @ lit ''\"results\"'' @
     [LazyStar AnyCh, One (Ch CHR ''}''),
      Opt [GreedyStar Space, One (Ch CHR ''}'')], Eos]"

section \<open>Structured result parser\<close>


text \<open>
  The attempt on one candidate text that passed the length test (source lines 299 to
  317). An exception other than \<^verbatim>\<open>JSONDecodeError\<close> leaves the inner handlers.
\<close>

definition try_text :: "(string \<Rightarrow> exn + pyval) \<Rightarrow> pyval \<Rightarrow> flow" where
  "try_text loads text =
     (case text of
        PStr s \<Rightarrow>
          (let s' = strip_fences s
           in case loads s' of
                Inr parsed \<Rightarrow>
                  (case parsed of
                     PDict p \<Rightarrow> if has_key p ''query_understanding'' then Return parsed else Next
                   | _ \<Rightarrow> Next)
              | Inl e \<Rightarrow>
                  if e = JSONDecodeError
                  then (case re_search json_pattern s' of
                          Some json_match \<Rightarrow>
                            (case loads json_match of
                               Inr parsed \<Rightarrow> Return parsed
                             | Inl e' \<Rightarrow> if e' = JSONDecodeError then Next else Raise e')
                        | None \<Rightarrow> Next)
                  else Raise e)
      | PBytes b \<Rightarrow> Raise TypeError
      | _ \<Rightarrow> Raise AttributeError)"

text \<open>One content block (source lines 294 to 317).\<close>

definition process_block :: "(string \<Rightarrow> exn + pyval) \<Rightarrow> pyval \<Rightarrow> flow" where
  "process_block loads content_block =
     (case content_block of
        PDict b \<Rightarrow>
          (let text = py_or (dict_get b ''text'' PNone) (dict_get b ''output_text'' PNone)
           in if truthy text
              then bindE (py_len text) (\<lambda>n. if n > 50 then try_text loads text else Next)
              else Next)
      | _ \<Rightarrow> Next)"

fun scan_blocks :: "(string \<Rightarrow> exn + pyval) \<Rightarrow> pyval list \<Rightarrow> flow" where
  "scan_blocks loads [] = Next"
| "scan_blocks loads (content_block # blocks) =
     orelse (process_block loads content_block) (scan_blocks loads blocks)"












section \<open>Candidates of the list scan\<close>

text \<open>
  The candidate text of a content block, the candidate texts of an element of the
  list (those of its blocks, when it is an assistant message with a list of blocks), its
  plain-string content, and what it means for a text to qualify: the attempt on a block
  text returns, a plain-string content decodes to a mapping that has
  \<^verbatim>\<open>query_understanding\<close>.
\<close>

definition candidate_text :: "pyval \<Rightarrow> pyval" where
  "candidate_text content_block =
     (case content_block of
        PDict b \<Rightarrow> py_or (dict_get b ''text'' PNone) (dict_get b ''output_text'' PNone)
      | _ \<Rightarrow> PNone)"



definition qualifies :: "(string \<Rightarrow> exn + pyval) \<Rightarrow> string \<Rightarrow> bool" where
  "qualifies loads t = (case try_text loads (PStr t) of Return v \<Rightarrow> True | _ \<Rightarrow> False)"

definition plain_qualifies :: "(string \<Rightarrow> exn + pyval) \<Rightarrow> string \<Rightarrow> bool" where
  "plain_qualifies loads s =
     (case loads s of Inr (PDict p) \<Rightarrow> has_key p ''query_understanding'' | _ \<Rightarrow> False)"


definition plain_message :: "string \<Rightarrow> pyval" where
  "plain_message text =
     PDict [(''type'', PStr ''message''), (''role'', PStr ''assistant''),
            (''content'', PStr text)]"

section \<open>Sample replies for concrete runs\<close>





section \<open>Properties\<close>

text \<open>
  C9. If the endpoint metadata lookup raises any exception, \<^verbatim>\<open>is_endpoint_supported\<close>
  returns \<^verbatim>\<open>True\<close> and logs exactly one entry, a warning. The function is total: for every
  lookup behaviour and every endpoint identifier it returns a boolean and a log, so no
  exception leaves it.
\<close>

theorem is_endpoint_supported_fails_open:
  "lookup endpoint_name = Inl e \<Longrightarrow>
     fst (is_endpoint_supported lookup endpoint_name) = True \<and>
     map fst (snd (is_endpoint_supported lookup endpoint_name)) = [WARNING]"
  by (simp add: is_endpoint_supported_def)

theorem is_endpoint_supported_fails_open_witness:
  "(\<lambda>n. Inl ''403 Forbidden'' :: string + string option) ''rag-agent'' = Inl ''403 Forbidden'' \<and>
   is_endpoint_supported (\<lambda>n. Inl ''403 Forbidden'') ''rag-agent''
     = (True, [(WARNING, ''Could not determine task type for endpoint rag-agent: 403 Forbidden'')])"
  using is_endpoint_supported_fails_open
          [of "\<lambda>n. Inl ''403 Forbidden''" "''rag-agent''" "''403 Forbidden''"]
  by (simp add: is_endpoint_supported_def)

subsection \<open>Helper facts\<close>

lemma orelse_simps [simp]:
  "orelse Next b = b" "orelse (Return v) b = Return v" "orelse (Raise e) b = Raise e"
  by (simp_all add: orelse_def)

lemma text_parts_join:
  "text_parts parts = Inr vs \<Longrightarrow> join_strs vs = Inr s \<Longrightarrow> s = concat (map tagged_text parts)"
proof (induction parts arbitrary: vs s)
  case Nil
  then show ?case by simp
next
  case (Cons p ps)
  then show ?case
    by (cases p)
       (auto simp: bindS_def dict_get_def split: sum.splits if_splits option.splits pyval.splits)
qed

lemma join_text_parts_spec:
  "join_text_parts parts = Inr s \<Longrightarrow> s = concat (map tagged_text parts)"
  by (auto simp: join_text_parts_def bindS_def split: sum.splits dest: text_parts_join)


subsection \<open>Chunk content extractor\<close>

lemma format1_spec:
  "\<not> raises (format1 (PDict d)) \<Longrightarrow> format1 (PDict d) = result_of (spec_shape1 d)"
  by (auto simp: format1_def spec_shape1_def bindE_def has_key_def dict_get_def
      split: sum.splits option.splits if_splits pyval.splits list.splits)

lemma format2_spec:
  "\<not> raises (format2 (PDict d)) \<Longrightarrow> format2 (PDict d) = result_of (spec_shape2 d)"
  by (auto simp: format2_def spec_shape2_def bindE_def has_key_def
      split: sum.splits option.splits pyval.splits dest: join_text_parts_spec)

lemma format3_spec: "format3 (PDict d) = result_of (spec_shape3 d)"
  by (auto simp: format3_def spec_shape3_def bindE_def has_key_def split: option.splits)

lemma format4_spec: "format4 (PDict d) = result_of (spec_shape4 d)"
  by (auto simp: format4_def spec_shape4_def bindE_def has_key_def
      split: option.splits pyval.splits)

lemma format5_spec: "format5 (PDict d) = result_of (spec_shape5 d)"
  by (auto simp: format5_def spec_shape5_def bindE_def has_key_def
      split: option.splits pyval.splits)

lemma extract_body_spec:
  assumes "\<not> raises (extract_body (PDict d))"
  shows "extract_content_from_stream (PDict d) = spec_extract d"
proof -
  have r1: "\<not> raises (format1 (PDict d))"
    using assms by (cases "format1 (PDict d)") (simp_all add: extract_body_def)
  note f1 = format1_spec [OF r1]
  have r2: "spec_shape1 d = None \<Longrightarrow> \<not> raises (format2 (PDict d))"
    using assms f1 by (cases "format2 (PDict d)") (simp_all add: extract_body_def)
  show ?thesis
  proof (cases "spec_shape1 d")
    case (Some v)
    then show ?thesis
      using f1 by (simp add: extract_content_from_stream_def extract_body_def spec_extract_def)
  next
    case None
    note f2 = format2_spec [OF r2 [OF None]]
    show ?thesis
      using None f1 f2
      by (cases "spec_shape2 d"; cases "spec_shape3 d"; cases "spec_shape4 d";
          cases "spec_shape5 d")
         (simp_all add: extract_content_from_stream_def extract_body_def spec_extract_def
            format3_spec format4_spec format5_spec)
  qed
qed

lemma extract_raises:
  "raises (extract_body chunk) \<Longrightarrow> extract_content_from_stream chunk = PNone"
  by (cases "extract_body chunk") (simp_all add: extract_content_from_stream_def)

lemma extract_non_dict: "\<not> is_dict chunk \<Longrightarrow> extract_content_from_stream chunk = PNone"
  by (cases chunk)
     (auto simp: extract_content_from_stream_def extract_body_def format1_def format2_def
        format3_def format4_def format5_def bindE_def orelse_def split: flow.splits)

text \<open>
  C8, as stated: the extraction is the first of the five shapes that yields something.
  It fails on a fragment whose \<^verbatim>\<open>choices\<close> is empty and which has a top-level
  \<^verbatim>\<open>content\<close>: indexing the empty \<^verbatim>\<open>choices\<close> raises, the handler ends the
  extraction, and the second shape is never tried.
\<close>

theorem extract_content_stops_at_exception:
  "extract_content_from_stream (PDict [(''choices'', PList []), (''content'', PStr ''hi'')])
     = PNone \<and>
   spec_extract [(''choices'', PList []), (''content'', PStr ''hi'')] = PStr ''hi''"
  by (simp add: extract_content_from_stream_def extract_body_def format1_def bindE_def
        has_key_def spec_extract_def spec_shape1_def spec_shape2_def)

text \<open>
  C8, amended. On a fragment mapping \<open>d\<close> for which no probe raises, the extraction is
  the first of the five shapes, in the stated order, that yields something. When a
  probe raises, the extraction ends with \<^verbatim>\<open>None\<close> and later shapes are not tried. The
  result is \<^verbatim>\<open>None\<close>, never an error, for every fragment mapping in which no shape
  matches and for every fragment that is no mapping.
\<close>

theorem extract_content_priority_order:
  "(\<not> raises (extract_body (PDict d)) \<longrightarrow>
      extract_content_from_stream (PDict d) = spec_extract d) \<and>
   (raises (extract_body chunk) \<longrightarrow> extract_content_from_stream chunk = PNone) \<and>
   (spec_shape1 d' = None \<and> spec_shape2 d' = None \<and> spec_shape3 d' = None \<and>
    spec_shape4 d' = None \<and> spec_shape5 d' = None \<longrightarrow>
      extract_content_from_stream (PDict d') = PNone) \<and>
   (\<not> is_dict chunk' \<longrightarrow> extract_content_from_stream chunk' = PNone)"
proof (intro conjI impI)
  assume "spec_shape1 d' = None \<and> spec_shape2 d' = None \<and> spec_shape3 d' = None \<and>
    spec_shape4 d' = None \<and> spec_shape5 d' = None"
  then have "spec_extract d' = PNone" by (simp add: spec_extract_def)
  then show "extract_content_from_stream (PDict d') = PNone"
    using extract_body_spec [of d'] extract_raises [of "PDict d'"] by auto
qed (simp_all add: extract_body_spec extract_raises extract_non_dict)

theorem extract_content_priority_order_witness:
  "extract_content_from_stream
     (PDict [(''content'', PList [PDict [(''type'', PStr ''text''), (''text'', PStr ''ab'')],
                                  PDict [(''type'', PStr ''image'')],
                                  PDict [(''type'', PStr ''text''), (''text'', PStr ''cd'')]]),
             (''text'', PStr ''zz'')]) = PStr ''abcd'' \<and>
   raises (extract_body (PDict [(''choices'', PList [PInt 1])])) \<and>
   extract_content_from_stream (PDict [(''choices'', PList [PInt 1])]) = PNone \<and>
   extract_content_from_stream (PDict [(''usage'', PInt 3)]) = PNone \<and>
   extract_content_from_stream (PInt 5) = PNone"
proof -
  let ?d = "[(''content'', PList [PDict [(''type'', PStr ''text''), (''text'', PStr ''ab'')],
                                  PDict [(''type'', PStr ''image'')],
                                  PDict [(''type'', PStr ''text''), (''text'', PStr ''cd'')]]),
             (''text'', PStr ''zz'')]"
  let ?c = "PDict [(''choices'', PList [PInt 1])]"
  let ?u = "[(''usage'', PInt 3)]"
  have h1: "\<not> raises (extract_body (PDict ?d))"
    by (simp add: extract_body_def format1_def format2_def bindE_def bindS_def has_key_def
          join_text_parts_def dict_get_def)
  have h2: "raises (extract_body ?c)"
    by (simp add: extract_body_def format1_def bindE_def has_key_def)
  have h3: "spec_shape1 ?u = None \<and> spec_shape2 ?u = None \<and> spec_shape3 ?u = None \<and>
    spec_shape4 ?u = None \<and> spec_shape5 ?u = None"
    by (simp add: spec_shape1_def spec_shape2_def spec_shape3_def spec_shape4_def
          spec_shape5_def)
  have h4: "\<not> is_dict (PInt 5)" by simp
  have s: "spec_extract ?d = PStr ''abcd''"
    by (simp add: spec_extract_def spec_shape1_def spec_shape2_def dict_get_def)
  show ?thesis
    using extract_content_priority_order [of ?d ?c ?u "PInt 5"] h1 h2 h3 h4 s by simp
qed

subsection \<open>Non-streaming executor\<close>


lemma chat_reply_shape:
  "chat_reply str res = Return msg \<Longrightarrow>
     (\<exists>r c. msg = PDict [(''role'', r), (''content'', PStr c)]) \<or>
     (\<exists>msgs. py_item res ''messages'' = Inr msgs \<and> py_last msgs = Inr msg) \<or>
     (\<exists>choices choice. py_item res ''choices'' = Inr choices \<and> py_first choices = Inr choice
         \<and> py_item choice ''message'' = Inr msg)"
  by (auto simp: chat_reply_def choices_reply_def bindE_def
      split: sum.splits if_splits pyval.splits)

lemma agent_endpoint_run:
  "agent_endpoint ''ep'' (agent_inputs [] 1000 False) = Inr (PDict [(''output'', PStr ''done'')])"
  by (simp add: agent_endpoint_def)

lemma chat_only_endpoint_run:
  "chat_only_endpoint ''ep'' (agent_inputs [] 1000 False) = Inl ''400 Bad Request''"
  "chat_only_endpoint ''ep'' (chat_inputs [] 1000) =
     Inr (PDict [(''choices'', PList [PDict [(''message'',
                      PDict [(''role'', PStr ''assistant''), (''content'', PStr ''hi'')])]])])"
  by (simp_all add: chat_only_endpoint_def agent_inputs_def chat_inputs_def has_key_def)


text \<open>
  C3, as stated: every returned message mapping has a \<^verbatim>\<open>raw_response\<close> field. It fails
  on the chat-format path: when the agent format is rejected and the chat format
  answers with a \<^verbatim>\<open>choices\<close> payload, the first choice's message is returned as it is.
\<close>

theorem query_endpoint_chat_path_without_raw_response:
  "query_endpoint chat_only_endpoint (\<lambda>v. []) ''ep'' [] 1000 =
     Inr (PDict [(''role'', PStr ''assistant''), (''content'', PStr ''hi'')]) \<and>
   \<not> has_key [(''role'', PStr ''assistant''), (''content'', PStr ''hi'')] ''raw_response''"
  by (simp add: query_endpoint_def chat_only_endpoint_def agent_inputs_def chat_inputs_def
        has_key_def chat_reply_def choices_reply_def bindE_def dict_get_def)

text \<open>
  C3, amended. Every message returned from the agent-format path is a mapping whose
  \<^verbatim>\<open>raw_response\<close> field holds the raw payload. The chat-format fallback path adds no
  such field: what it returns is either a mapping it builds with the two fields
  \<^verbatim>\<open>role\<close> and \<^verbatim>\<open>content\<close> only, or a message taken unchanged from the payload (the
  last element of \<^verbatim>\<open>messages\<close>, or the first choice's \<^verbatim>\<open>message\<close>).
\<close>

theorem query_endpoint_raw_response:
  "(predict endpoint_name (agent_inputs messages max_tokens False) = Inr res \<longrightarrow>
      (\<exists>m. query_endpoint predict str endpoint_name messages max_tokens = Inr (PDict m) \<and>
           map_of m ''raw_response'' = Some res)) \<and>
   (predict endpoint_name (agent_inputs messages max_tokens False) = Inl custom_error \<and>
    predict endpoint_name (chat_inputs messages max_tokens) = Inr res2 \<and>
    query_endpoint predict str endpoint_name messages max_tokens = Inr msg \<longrightarrow>
      (\<exists>r c. msg = PDict [(''role'', r), (''content'', PStr c)]) \<or>
      (\<exists>msgs. py_item res2 ''messages'' = Inr msgs \<and> py_last msgs = Inr msg) \<or>
      (\<exists>choices choice. py_item res2 ''choices'' = Inr choices \<and>
          py_first choices = Inr choice \<and> py_item choice ''message'' = Inr msg))"
proof (intro conjI impI)
  assume "predict endpoint_name (agent_inputs messages max_tokens False) = Inr res"
  then show "\<exists>m. query_endpoint predict str endpoint_name messages max_tokens = Inr (PDict m) \<and>
           map_of m ''raw_response'' = Some res"
    by (simp add: query_endpoint_def agent_reply_def assistant_def
        split: pyval.splits option.splits)
next
  assume a: "predict endpoint_name (agent_inputs messages max_tokens False) = Inl custom_error \<and>
    predict endpoint_name (chat_inputs messages max_tokens) = Inr res2 \<and>
    query_endpoint predict str endpoint_name messages max_tokens = Inr msg"
  then have "chat_reply str res2 = Return msg \<or> (chat_reply str res2 = Next \<and> msg = PNone)"
    by (auto simp: query_endpoint_def split: flow.splits)
  moreover have "chat_reply str res2 \<noteq> Next"
    by (auto simp: chat_reply_def choices_reply_def bindE_def
        split: sum.splits if_splits pyval.splits)
  ultimately have "chat_reply str res2 = Return msg" by simp
  then show "(\<exists>r c. msg = PDict [(''role'', r), (''content'', PStr c)]) \<or>
      (\<exists>msgs. py_item res2 ''messages'' = Inr msgs \<and> py_last msgs = Inr msg) \<or>
      (\<exists>choices choice. py_item res2 ''choices'' = Inr choices \<and>
          py_first choices = Inr choice \<and> py_item choice ''message'' = Inr msg)"
    by (rule chat_reply_shape)
qed

theorem query_endpoint_raw_response_witness:
  "query_endpoint agent_endpoint (\<lambda>v. ''done'') ''ep'' [] 1000 =
     Inr (PDict [(''role'', PStr ''assistant''), (''content'', PStr ''done''),
                 (''raw_response'', PDict [(''output'', PStr ''done'')])]) \<and>
   chat_only_endpoint ''ep'' (agent_inputs [] 1000 False) = Inl ''400 Bad Request'' \<and>
   query_endpoint chat_only_endpoint (\<lambda>v. []) ''ep'' [] 1000 =
     Inr (PDict [(''role'', PStr ''assistant''), (''content'', PStr ''hi'')]) \<and>
   py_item (PDict [(''message'', PDict [(''role'', PStr ''assistant''), (''content'', PStr ''hi'')])])
     ''message'' = Inr (PDict [(''role'', PStr ''assistant''), (''content'', PStr ''hi'')])"
proof -
  have q1: "query_endpoint agent_endpoint (\<lambda>v. ''done'') ''ep'' [] 1000 =
     Inr (PDict [(''role'', PStr ''assistant''), (''content'', PStr ''done''),
                 (''raw_response'', PDict [(''output'', PStr ''done'')])])"
    by (simp add: query_endpoint_def agent_endpoint_def agent_reply_def assistant_def)
  have q2: "query_endpoint chat_only_endpoint (\<lambda>v. []) ''ep'' [] 1000 =
     Inr (PDict [(''role'', PStr ''assistant''), (''content'', PStr ''hi'')])"
    by (simp add: query_endpoint_def chat_only_endpoint_def agent_inputs_def chat_inputs_def
          has_key_def chat_reply_def choices_reply_def bindE_def dict_get_def)
  have "\<exists>m. query_endpoint agent_endpoint (\<lambda>v. ''done'') ''ep'' [] 1000 = Inr (PDict m) \<and>
           map_of m ''raw_response'' = Some (PDict [(''output'', PStr ''done'')])"
    using query_endpoint_raw_response
            [of agent_endpoint "''ep''" "[]" 1000 "PDict [(''output'', PStr ''done'')]"]
          agent_endpoint_run by blast
  moreover have
    "(\<exists>r c. PDict [(''role'', PStr ''assistant''), (''content'', PStr ''hi'')]
              = PDict [(''role'', r), (''content'', PStr c)]) \<or>
     (\<exists>msgs. py_item (PDict [(''choices'', PList [PDict [(''message'',
                      PDict [(''role'', PStr ''assistant''), (''content'', PStr ''hi'')])]])])
                ''messages'' = Inr msgs \<and>
             py_last msgs = Inr (PDict [(''role'', PStr ''assistant''), (''content'', PStr ''hi'')])) \<or>
     (\<exists>choices choice.
         py_item (PDict [(''choices'', PList [PDict [(''message'',
                      PDict [(''role'', PStr ''assistant''), (''content'', PStr ''hi'')])]])])
           ''choices'' = Inr choices \<and>
         py_first choices = Inr choice \<and>
         py_item choice ''message''
           = Inr (PDict [(''role'', PStr ''assistant''), (''content'', PStr ''hi'')]))"
    using query_endpoint_raw_response
            [of chat_only_endpoint "''ep''" "[]" 1000 _ _ "''400 Bad Request''"
                "PDict [(''choices'', PList [PDict [(''message'',
                      PDict [(''role'', PStr ''assistant''), (''content'', PStr ''hi'')])]])]"
                "PDict [(''role'', PStr ''assistant''), (''content'', PStr ''hi'')]"]
          chat_only_endpoint_run q2 by blast
  ultimately show ?thesis
    using q1 q2 chat_only_endpoint_run(1) by simp
qed






subsection \<open>Structured result parser\<close>

lemma scan_blocks_append:
  "scan_blocks loads (xs @ ys) = orelse (scan_blocks loads xs) (scan_blocks loads ys)"
  by (induction xs) (simp_all add: orelse_def split: flow.splits)

lemma short_block_skipped:
  "candidate_text b = PStr t \<Longrightarrow> text_len t \<le> 50 \<Longrightarrow> process_block loads b = Next"
  by (auto simp: candidate_text_def process_block_def bindE_def Let_def split: pyval.splits)


















end
